theory Spec2Isabelle
  imports Main
begin

section \<open>JavaScript values and the operators the configuration module uses\<close>

text \<open>
  The repository is one configuration module, present twice with two fallback literals:
  \<^verbatim>\<open>
  // API Configuration
  export const API_URL = import.meta.env.VITE_API_URL || '<fallback literal>';

  console.log('API URL:', API_URL);

  export default API_URL;
  \<close>
  The values that reach the override operand are the ones the contract of the resolution
  names: \<open>undefined\<close>, \<open>null\<close> and strings. \<open>import.meta.env\<close> is an object whose
  properties hold such values; outside a bundler that defines it the object itself is
  \<open>undefined\<close>, and the member access then throws.
\<close>

datatype jsval = JUndefined | JNull | JString string

datatype js_error = TypeError | ReferenceError

type_synonym js_object = "string \<rightharpoonup> jsval"

text \<open>ToBoolean: \<open>undefined\<close>, \<open>null\<close> and the empty string are falsy, every other string is truthy.\<close>

fun truthy :: "jsval \<Rightarrow> bool" where
  "truthy JUndefined = False"
| "truthy JNull = False"
| "truthy (JString s) = (s \<noteq> [])"

text \<open>\<open>a || b\<close>: the left operand itself when it is truthy, the right operand otherwise.\<close>

definition js_or :: "jsval \<Rightarrow> jsval \<Rightarrow> jsval" where
  "js_or a b = (if truthy a then a else b)"

text \<open>\<open>obj.name\<close> on an object: a property that is not there reads as \<open>undefined\<close>.\<close>

definition get_prop :: "js_object \<Rightarrow> string \<Rightarrow> jsval" where
  "get_prop obj name = (case obj name of None \<Rightarrow> JUndefined | Some v \<Rightarrow> v)"

text \<open>\<open>base.name\<close> where the base may be \<open>undefined\<close>: then the access throws a TypeError.\<close>

definition get_member :: "js_object option \<Rightarrow> string \<Rightarrow> js_error + jsval" where
  "get_member base name =
     (case base of None \<Rightarrow> Inl TypeError | Some obj \<Rightarrow> Inr (get_prop obj name))"

text \<open>
  \<open>console.log\<close> writes one line per call: its arguments, separated by one space. A string
  argument is written as it is. The first argument of the module's call, \<open>'API URL:'\<close>,
  holds no format specifier, so nothing is substituted.
\<close>

fun console_arg :: "jsval \<Rightarrow> string" where
  "console_arg JUndefined = ''undefined''"
| "console_arg JNull = ''null''"
| "console_arg (JString s) = s"

fun join_space :: "string list \<Rightarrow> string" where
  "join_space [] = []"
| "join_space [x] = x"
| "join_space (x # y # ys) = x @ '' '' @ join_space (y # ys)"

definition console_log :: "jsval list \<Rightarrow> string" where
  "console_log args = join_space (map console_arg args)"

section \<open>The state of a module\<close>

text \<open>
  The state a module's statements run in: the \<open>import.meta.env\<close> object they read, the
  binding \<open>API_URL\<close> (\<open>None\<close> until its declaration has run: reading it before that throws a
  ReferenceError), the default export, and the lines written to the console.
\<close>

record js_state =
  import_meta_env :: "js_object option"
  API_URL :: "jsval option"
  default_export :: "jsval option"
  console :: "string list"

definition init_state :: "js_object option \<Rightarrow> js_state" where
  "init_state ime =
     \<lparr>import_meta_env = ime, API_URL = None, default_export = None, console = []\<rparr>"

definition read_binding :: "jsval option \<Rightarrow> js_error + jsval" where
  "read_binding b = (case b of None \<Rightarrow> Inl ReferenceError | Some v \<Rightarrow> Inr v)"

text \<open>Statements in sequence: the first one that throws ends the module.\<close>

definition then_stmt ::
  "(js_state \<Rightarrow> js_error + js_state) \<Rightarrow> (js_state \<Rightarrow> js_error + js_state) \<Rightarrow>
   js_state \<Rightarrow> js_error + js_state" where
  "then_stmt f g \<sigma> = (case f \<sigma> of Inl e \<Rightarrow> Inl e | Inr \<sigma>' \<Rightarrow> g \<sigma>')"

text \<open>
  The states a sequence of statements passes through, the starting state first; a statement
  that throws ends the sequence.
\<close>

fun run_stmts :: "(js_state \<Rightarrow> js_error + js_state) list \<Rightarrow> js_state \<Rightarrow> js_state list" where
  "run_stmts [] \<sigma> = [\<sigma>]"
| "run_stmts (f # fs) \<sigma> = \<sigma> # (case f \<sigma> of Inl e \<Rightarrow> [] | Inr \<sigma>' \<Rightarrow> run_stmts fs \<sigma>')"

section \<open>src/frontend/src/config.js\<close>

definition config_js_fallback :: string where
  "config_js_fallback = ''https://my-erp-backend-theta.vercel.app''"

text \<open>
  Line 2, the initialiser \<open>import.meta.env.VITE_API_URL || '...'\<close> as a function of the
  value of its left operand (the override) and of the literal (the fallback).
\<close>

definition resolveApiUrl_config :: "jsval \<Rightarrow> string \<Rightarrow> jsval" where
  "resolveApiUrl_config override fallback = js_or override (JString fallback)"

text \<open>Line 2, the declaration \<open>export const API_URL = ...\<close>, with the literal as a parameter.\<close>

definition config_js_line2 :: "string \<Rightarrow> js_state \<Rightarrow> js_error + js_state" where
  "config_js_line2 fallback \<sigma> =
     (case get_member (import_meta_env \<sigma>) ''VITE_API_URL'' of
        Inl e \<Rightarrow> Inl e
      | Inr override \<Rightarrow> Inr (\<sigma>\<lparr>API_URL := Some (resolveApiUrl_config override fallback)\<rparr>))"

text \<open>Line 4, \<open>console.log('API URL:', API_URL)\<close>.\<close>

definition config_js_line4 :: "js_state \<Rightarrow> js_error + js_state" where
  "config_js_line4 \<sigma> =
     (case read_binding (API_URL \<sigma>) of
        Inl e \<Rightarrow> Inl e
      | Inr v \<Rightarrow> Inr (\<sigma>\<lparr>console := console \<sigma> @ [console_log [JString ''API URL:'', v]]\<rparr>))"

text \<open>Line 6, \<open>export default API_URL\<close>: the default export is the value read now.\<close>

definition config_js_line6 :: "js_state \<Rightarrow> js_error + js_state" where
  "config_js_line6 \<sigma> =
     (case read_binding (API_URL \<sigma>) of
        Inl e \<Rightarrow> Inl e
      | Inr v \<Rightarrow> Inr (\<sigma>\<lparr>default_export := Some v\<rparr>))"

definition config_js_body :: "string \<Rightarrow> js_state \<Rightarrow> js_error + js_state" where
  "config_js_body fallback =
     then_stmt (config_js_line2 fallback) (then_stmt config_js_line4 config_js_line6)"

text \<open>Loading the module: its body, with its own literal, from the initial state.\<close>

definition config_js_load :: "js_object option \<Rightarrow> js_error + js_state" where
  "config_js_load ime = config_js_body config_js_fallback (init_state ime)"

section \<open>src/unnamed/part_000\<close>

definition part_000_fallback :: string where
  "part_000_fallback = ''https://my-erp-frontend-delta.vercel.app''"

definition resolveApiUrl_part_000 :: "jsval \<Rightarrow> string \<Rightarrow> jsval" where
  "resolveApiUrl_part_000 override fallback = js_or override (JString fallback)"

definition part_000_line2 :: "string \<Rightarrow> js_state \<Rightarrow> js_error + js_state" where
  "part_000_line2 fallback \<sigma> =
     (case get_member (import_meta_env \<sigma>) ''VITE_API_URL'' of
        Inl e \<Rightarrow> Inl e
      | Inr override \<Rightarrow> Inr (\<sigma>\<lparr>API_URL := Some (resolveApiUrl_part_000 override fallback)\<rparr>))"

definition part_000_line4 :: "js_state \<Rightarrow> js_error + js_state" where
  "part_000_line4 \<sigma> =
     (case read_binding (API_URL \<sigma>) of
        Inl e \<Rightarrow> Inl e
      | Inr v \<Rightarrow> Inr (\<sigma>\<lparr>console := console \<sigma> @ [console_log [JString ''API URL:'', v]]\<rparr>))"

definition part_000_line6 :: "js_state \<Rightarrow> js_error + js_state" where
  "part_000_line6 \<sigma> =
     (case read_binding (API_URL \<sigma>) of
        Inl e \<Rightarrow> Inl e
      | Inr v \<Rightarrow> Inr (\<sigma>\<lparr>default_export := Some v\<rparr>))"

definition part_000_body :: "string \<Rightarrow> js_state \<Rightarrow> js_error + js_state" where
  "part_000_body fallback =
     then_stmt (part_000_line2 fallback) (then_stmt part_000_line4 part_000_line6)"

definition part_000_load :: "js_object option \<Rightarrow> js_error + js_state" where
  "part_000_load ime = part_000_body part_000_fallback (init_state ime)"

section \<open>What the rest of the program can do after the load\<close>

text \<open>
  \<open>API_URL\<close> is declared \<open>const\<close>, and an importer sees both exports through read-only
  bindings: it can read them, and an assignment to either throws a TypeError and leaves
  the binding as it was. The value is a string, a primitive with nothing to mutate. What
  can change after the load is the rest of the state: a property of the environment object
  can be written (\<open>import.meta.env.name = v\<close>, which throws when there is no object), and
  \<open>console.log\<close> can be called again.
\<close>

datatype client_op =
    ReadAPI_URL
  | ReadDefault
  | AssignAPI_URL jsval
  | AssignDefault jsval
  | SetEnv string jsval
  | Log "jsval list"

fun client_step :: "client_op \<Rightarrow> js_state \<Rightarrow> (js_error + jsval) \<times> js_state" where
  "client_step ReadAPI_URL \<sigma> = (read_binding (API_URL \<sigma>), \<sigma>)"
| "client_step ReadDefault \<sigma> = (read_binding (default_export \<sigma>), \<sigma>)"
| "client_step (AssignAPI_URL v) \<sigma> = (Inl TypeError, \<sigma>)"
| "client_step (AssignDefault v) \<sigma> = (Inl TypeError, \<sigma>)"
| "client_step (SetEnv name v) \<sigma> =
     (case import_meta_env \<sigma> of
        None \<Rightarrow> (Inl TypeError, \<sigma>)
      | Some obj \<Rightarrow> (Inr v, \<sigma>\<lparr>import_meta_env := Some (obj(name \<mapsto> v))\<rparr>))"
| "client_step (Log args) \<sigma> = (Inr JUndefined, \<sigma>\<lparr>console := console \<sigma> @ [console_log args]\<rparr>)"

text \<open>A run of such operations; one that throws does not stop the others.\<close>

fun run_clients :: "client_op list \<Rightarrow> js_state \<Rightarrow> js_state" where
  "run_clients [] \<sigma> = \<sigma>"
| "run_clients (c # cs) \<sigma> = run_clients cs (snd (client_step c \<sigma>))"

section \<open>The resolution\<close>

lemma resolve_config_falsy:
  "\<not> truthy v \<Longrightarrow> resolveApiUrl_config v fb = JString fb"
  by (simp add: resolveApiUrl_config_def js_or_def)

lemma resolve_part_000_falsy:
  "\<not> truthy v \<Longrightarrow> resolveApiUrl_part_000 v fb = JString fb"
  by (simp add: resolveApiUrl_part_000_def js_or_def)

lemma resolve_config_truthy:
  "truthy v \<Longrightarrow> resolveApiUrl_config v fb = v"
  by (simp add: resolveApiUrl_config_def js_or_def)

lemma resolve_part_000_truthy:
  "truthy v \<Longrightarrow> resolveApiUrl_part_000 v fb = v"
  by (simp add: resolveApiUrl_part_000_def js_or_def)

text \<open>
  C1. For an override that is \<open>undefined\<close>, \<open>null\<close> or the empty string, the resolution of
  either file returns exactly the fallback literal.
\<close>

theorem resolveApiUrl_absent_override:
  "resolveApiUrl_config JUndefined fb = JString fb \<and>
   resolveApiUrl_config JNull fb = JString fb \<and>
   resolveApiUrl_config (JString '''') fb = JString fb \<and>
   resolveApiUrl_part_000 JUndefined fb = JString fb \<and>
   resolveApiUrl_part_000 JNull fb = JString fb \<and>
   resolveApiUrl_part_000 (JString '''') fb = JString fb"
  by (simp add: resolve_config_falsy resolve_part_000_falsy)

text \<open>
  C2. A non-empty override string is returned exactly as it is, whatever the fallback:
  nothing is trimmed, checked or normalised.
\<close>

theorem resolveApiUrl_nonempty_override:
  "s \<noteq> [] \<Longrightarrow>
   resolveApiUrl_config (JString s) fb = JString s \<and>
   resolveApiUrl_part_000 (JString s) fb = JString s"
  by (simp add: resolve_config_truthy resolve_part_000_truthy)

theorem resolveApiUrl_nonempty_override_witness:
  "''https://staging.example.com'' \<noteq> [] \<and>
   resolveApiUrl_config (JString ''https://staging.example.com'') config_js_fallback =
     JString ''https://staging.example.com'' \<and>
   resolveApiUrl_part_000 (JString ''https://staging.example.com'') part_000_fallback =
     JString ''https://staging.example.com''"
proof -
  have ne: "''https://staging.example.com'' \<noteq> []" by simp
  from resolveApiUrl_nonempty_override [OF ne, of config_js_fallback]
    resolveApiUrl_nonempty_override [OF ne, of part_000_fallback] ne
  show ?thesis by simp
qed

lemma resolve_config_cases:
  "resolveApiUrl_config ov fb = (if truthy ov then ov else JString fb)"
  by (simp add: resolveApiUrl_config_def js_or_def)

lemma resolve_part_000_cases:
  "resolveApiUrl_part_000 ov fb = (if truthy ov then ov else JString fb)"
  by (simp add: resolveApiUrl_part_000_def js_or_def)

lemma truthy_is_string: "truthy v \<Longrightarrow> \<exists>s. v = JString s \<and> s \<noteq> []"
  by (cases v) simp_all

text \<open>
  C3. When the fallback literal is not empty, the resolved value is a non-empty string (so
  neither \<open>undefined\<close> nor \<open>null\<close>), for every override.
\<close>

theorem resolveApiUrl_nonempty_result:
  "fb \<noteq> [] \<Longrightarrow>
   (\<exists>s. resolveApiUrl_config ov fb = JString s \<and> s \<noteq> []) \<and>
   (\<exists>s. resolveApiUrl_part_000 ov fb = JString s \<and> s \<noteq> [])"
  by (simp add: resolve_config_cases resolve_part_000_cases truthy_is_string)

theorem resolveApiUrl_nonempty_result_witness:
  "config_js_fallback \<noteq> [] \<and>
   (\<exists>s. resolveApiUrl_config JNull config_js_fallback = JString s \<and> s \<noteq> []) \<and>
   (\<exists>s. resolveApiUrl_part_000 JNull config_js_fallback = JString s \<and> s \<noteq> [])"
proof -
  have ne: "config_js_fallback \<noteq> []" by (simp add: config_js_fallback_def)
  from resolveApiUrl_nonempty_result [OF ne, of JNull] ne show ?thesis by simp
qed

section \<open>Loading a module\<close>

lemma console_log_line: "console_log [JString ''API URL:'', v] = ''API URL: '' @ console_arg v"
  by (simp add: console_log_def)

lemma config_js_line2_ok:
  "import_meta_env \<sigma> = Some obj \<Longrightarrow>
   config_js_line2 fb \<sigma> =
     Inr (\<sigma>\<lparr>API_URL := Some (resolveApiUrl_config (get_prop obj ''VITE_API_URL'') fb)\<rparr>)"
  by (simp add: config_js_line2_def get_member_def)

lemma part_000_line2_ok:
  "import_meta_env \<sigma> = Some obj \<Longrightarrow>
   part_000_line2 fb \<sigma> =
     Inr (\<sigma>\<lparr>API_URL := Some (resolveApiUrl_part_000 (get_prop obj ''VITE_API_URL'') fb)\<rparr>)"
  by (simp add: part_000_line2_def get_member_def)

lemma config_js_line2_throws:
  "import_meta_env \<sigma> = None \<Longrightarrow> config_js_line2 fb \<sigma> = Inl TypeError"
  by (simp add: config_js_line2_def get_member_def)

lemma part_000_line2_throws:
  "import_meta_env \<sigma> = None \<Longrightarrow> part_000_line2 fb \<sigma> = Inl TypeError"
  by (simp add: part_000_line2_def get_member_def)

lemma config_js_line4_ok:
  "API_URL \<sigma> = Some v \<Longrightarrow>
   config_js_line4 \<sigma> = Inr (\<sigma>\<lparr>console := console \<sigma> @ [''API URL: '' @ console_arg v]\<rparr>)"
  by (simp add: config_js_line4_def read_binding_def console_log_line)

lemma part_000_line4_ok:
  "API_URL \<sigma> = Some v \<Longrightarrow>
   part_000_line4 \<sigma> = Inr (\<sigma>\<lparr>console := console \<sigma> @ [''API URL: '' @ console_arg v]\<rparr>)"
  by (simp add: part_000_line4_def read_binding_def console_log_line)

lemma config_js_line6_ok:
  "API_URL \<sigma> = Some v \<Longrightarrow> config_js_line6 \<sigma> = Inr (\<sigma>\<lparr>default_export := Some v\<rparr>)"
  by (simp add: config_js_line6_def read_binding_def)

lemma part_000_line6_ok:
  "API_URL \<sigma> = Some v \<Longrightarrow> part_000_line6 \<sigma> = Inr (\<sigma>\<lparr>default_export := Some v\<rparr>)"
  by (simp add: part_000_line6_def read_binding_def)

lemma config_js_body_ok:
  "import_meta_env \<sigma> = Some obj \<Longrightarrow>
   config_js_body fb \<sigma> =
     Inr (\<sigma>\<lparr>API_URL := Some (resolveApiUrl_config (get_prop obj ''VITE_API_URL'') fb),
            console := console \<sigma> @
              [''API URL: '' @ console_arg (resolveApiUrl_config (get_prop obj ''VITE_API_URL'') fb)],
            default_export := Some (resolveApiUrl_config (get_prop obj ''VITE_API_URL'') fb)\<rparr>)"
  by (simp add: config_js_body_def then_stmt_def config_js_line2_ok config_js_line4_ok
      config_js_line6_ok)

lemma part_000_body_ok:
  "import_meta_env \<sigma> = Some obj \<Longrightarrow>
   part_000_body fb \<sigma> =
     Inr (\<sigma>\<lparr>API_URL := Some (resolveApiUrl_part_000 (get_prop obj ''VITE_API_URL'') fb),
            console := console \<sigma> @
              [''API URL: '' @ console_arg (resolveApiUrl_part_000 (get_prop obj ''VITE_API_URL'') fb)],
            default_export := Some (resolveApiUrl_part_000 (get_prop obj ''VITE_API_URL'') fb)\<rparr>)"
  by (simp add: part_000_body_def then_stmt_def part_000_line2_ok part_000_line4_ok
      part_000_line6_ok)

lemma config_js_body_throws:
  "import_meta_env \<sigma> = None \<Longrightarrow> config_js_body fb \<sigma> = Inl TypeError"
  by (simp add: config_js_body_def then_stmt_def config_js_line2_throws)

lemma part_000_body_throws:
  "import_meta_env \<sigma> = None \<Longrightarrow> part_000_body fb \<sigma> = Inl TypeError"
  by (simp add: part_000_body_def then_stmt_def part_000_line2_throws)

lemma config_js_load_ok:
  "config_js_load (Some obj) =
     Inr \<lparr>import_meta_env = Some obj,
          API_URL = Some (resolveApiUrl_config (get_prop obj ''VITE_API_URL'') config_js_fallback),
          default_export =
            Some (resolveApiUrl_config (get_prop obj ''VITE_API_URL'') config_js_fallback),
          console =
            [''API URL: '' @
             console_arg (resolveApiUrl_config (get_prop obj ''VITE_API_URL'') config_js_fallback)]\<rparr>"
  by (simp add: config_js_load_def config_js_body_ok [of _ obj] init_state_def)

lemma part_000_load_ok:
  "part_000_load (Some obj) =
     Inr \<lparr>import_meta_env = Some obj,
          API_URL = Some (resolveApiUrl_part_000 (get_prop obj ''VITE_API_URL'') part_000_fallback),
          default_export =
            Some (resolveApiUrl_part_000 (get_prop obj ''VITE_API_URL'') part_000_fallback),
          console =
            [''API URL: '' @
             console_arg (resolveApiUrl_part_000 (get_prop obj ''VITE_API_URL'') part_000_fallback)]\<rparr>"
  by (simp add: part_000_load_def part_000_body_ok [of _ obj] init_state_def)

lemma config_js_fallback_nonempty: "config_js_fallback \<noteq> []"
  by (simp add: config_js_fallback_def)

lemma part_000_fallback_nonempty: "part_000_fallback \<noteq> []"
  by (simp add: part_000_fallback_def)

lemma resolve_config_string:
  "fb \<noteq> [] \<Longrightarrow> \<exists>s. resolveApiUrl_config ov fb = JString s \<and> s \<noteq> []"
  by (simp add: resolve_config_cases truthy_is_string)

lemma resolve_part_000_string:
  "fb \<noteq> [] \<Longrightarrow> \<exists>s. resolveApiUrl_part_000 ov fb = JString s \<and> s \<noteq> []"
  by (simp add: resolve_part_000_cases truthy_is_string)

text \<open>
  C4. Loading either module, whatever the override held by the environment object, writes
  exactly one line to the console: \<open>API URL:\<close>, a space, and the resolved string as it is.
\<close>

theorem load_logs_resolved_value_once:
  "(\<exists>\<sigma> s. config_js_load (Some obj) = Inr \<sigma> \<and>
      resolveApiUrl_config (get_prop obj ''VITE_API_URL'') config_js_fallback = JString s \<and>
      API_URL \<sigma> = Some (JString s) \<and> console \<sigma> = [''API URL: '' @ s]) \<and>
   (\<exists>\<sigma> s. part_000_load (Some obj) = Inr \<sigma> \<and>
      resolveApiUrl_part_000 (get_prop obj ''VITE_API_URL'') part_000_fallback = JString s \<and>
      API_URL \<sigma> = Some (JString s) \<and> console \<sigma> = [''API URL: '' @ s])"
proof
  obtain s where "resolveApiUrl_config (get_prop obj ''VITE_API_URL'') config_js_fallback = JString s"
    using resolve_config_string [OF config_js_fallback_nonempty] by blast
  then show "\<exists>\<sigma> s. config_js_load (Some obj) = Inr \<sigma> \<and>
      resolveApiUrl_config (get_prop obj ''VITE_API_URL'') config_js_fallback = JString s \<and>
      API_URL \<sigma> = Some (JString s) \<and> console \<sigma> = [''API URL: '' @ s]"
    by (simp add: config_js_load_ok)
next
  obtain s where "resolveApiUrl_part_000 (get_prop obj ''VITE_API_URL'') part_000_fallback = JString s"
    using resolve_part_000_string [OF part_000_fallback_nonempty] by blast
  then show "\<exists>\<sigma> s. part_000_load (Some obj) = Inr \<sigma> \<and>
      resolveApiUrl_part_000 (get_prop obj ''VITE_API_URL'') part_000_fallback = JString s \<and>
      API_URL \<sigma> = Some (JString s) \<and> console \<sigma> = [''API URL: '' @ s]"
    by (simp add: part_000_load_ok)
qed

text \<open>
  C5. The resolution is pure. The declaration of line 2 changes nothing of the state but the
  binding it declares, the value it binds is a function of the override and the fallback
  alone (whatever the rest of the state holds), and running it a second time on the state it
  produced gives that state again.
\<close>

theorem resolveApiUrl_pure:
  "config_js_line2 fb (\<sigma>\<lparr>import_meta_env := Some obj\<rparr>) =
     Inr (\<sigma>\<lparr>import_meta_env := Some obj,
            API_URL := Some (resolveApiUrl_config (get_prop obj ''VITE_API_URL'') fb)\<rparr>) \<and>
   then_stmt (config_js_line2 fb) (config_js_line2 fb) \<sigma> = config_js_line2 fb \<sigma> \<and>
   part_000_line2 fb (\<sigma>\<lparr>import_meta_env := Some obj\<rparr>) =
     Inr (\<sigma>\<lparr>import_meta_env := Some obj,
            API_URL := Some (resolveApiUrl_part_000 (get_prop obj ''VITE_API_URL'') fb)\<rparr>) \<and>
   then_stmt (part_000_line2 fb) (part_000_line2 fb) \<sigma> = part_000_line2 fb \<sigma>"
proof -
  have c: "then_stmt (config_js_line2 fb) (config_js_line2 fb) \<sigma> = config_js_line2 fb \<sigma>"
    by (cases "import_meta_env \<sigma>")
      (simp_all add: then_stmt_def config_js_line2_ok config_js_line2_throws)
  have p: "then_stmt (part_000_line2 fb) (part_000_line2 fb) \<sigma> = part_000_line2 fb \<sigma>"
    by (cases "import_meta_env \<sigma>")
      (simp_all add: then_stmt_def part_000_line2_ok part_000_line2_throws)
  show ?thesis
    by (simp add: c p config_js_line2_ok [of _ obj] part_000_line2_ok [of _ obj])
qed

text \<open>
  C6. The resolution cannot fail. With an environment object, whatever override it holds,
  loading either module throws nothing and binds \<open>API_URL\<close> to the resolved value; an
  override that is a non-empty string, well-formed as a URL or not, is that value.
\<close>

theorem resolution_never_fails:
  "(\<exists>\<sigma>. config_js_load (Some (obj(''VITE_API_URL'' \<mapsto> ov))) = Inr \<sigma> \<and>
      API_URL \<sigma> = Some (resolveApiUrl_config ov config_js_fallback)) \<and>
   (\<exists>\<sigma>. part_000_load (Some (obj(''VITE_API_URL'' \<mapsto> ov))) = Inr \<sigma> \<and>
      API_URL \<sigma> = Some (resolveApiUrl_part_000 ov part_000_fallback)) \<and>
   (\<exists>\<sigma>. config_js_load (Some (obj(''VITE_API_URL'' := None))) = Inr \<sigma> \<and>
      API_URL \<sigma> = Some (resolveApiUrl_config JUndefined config_js_fallback)) \<and>
   (\<exists>\<sigma>. part_000_load (Some (obj(''VITE_API_URL'' := None))) = Inr \<sigma> \<and>
      API_URL \<sigma> = Some (resolveApiUrl_part_000 JUndefined part_000_fallback)) \<and>
   resolveApiUrl_config (JString (c # cs)) fb = JString (c # cs) \<and>
   resolveApiUrl_part_000 (JString (c # cs)) fb = JString (c # cs)"
  by (simp add: config_js_load_ok part_000_load_ok get_prop_def resolve_config_truthy
      resolve_part_000_truthy)

text \<open>
  C7. With no override and the fallback \<open>https://my-erp-backend-theta.vercel.app\<close>, the
  resolved value is exactly that string; it is what config.js binds when the environment
  object has no \<open>VITE_API_URL\<close>.
\<close>

theorem scenario_absent_override_backend:
  "resolveApiUrl_config JUndefined ''https://my-erp-backend-theta.vercel.app'' =
     JString ''https://my-erp-backend-theta.vercel.app'' \<and>
   (\<exists>\<sigma>. config_js_load (Some (obj(''VITE_API_URL'' := None))) = Inr \<sigma> \<and>
      API_URL \<sigma> = Some (JString ''https://my-erp-backend-theta.vercel.app''))"
  by (simp add: config_js_load_ok get_prop_def resolve_config_falsy config_js_fallback_def)

text \<open>
  C8. The two files implement the same resolution and differ in the fallback literal only:
  with the literal as a parameter, the initialiser, the declaration and the whole body of
  config.js are equal to those of part_000 as functions, and the two literals are different.
\<close>

theorem files_differ_in_fallback_only:
  "resolveApiUrl_config = resolveApiUrl_part_000 \<and>
   config_js_line2 = part_000_line2 \<and>
   config_js_body = part_000_body \<and>
   config_js_load ime = part_000_body config_js_fallback (init_state ime) \<and>
   part_000_load ime = config_js_body part_000_fallback (init_state ime) \<and>
   config_js_fallback \<noteq> part_000_fallback"
proof -
  have r: "resolveApiUrl_config = resolveApiUrl_part_000"
    by (intro ext) (simp add: resolveApiUrl_config_def resolveApiUrl_part_000_def)
  have l2: "config_js_line2 = part_000_line2"
    unfolding config_js_line2_def part_000_line2_def r by (rule refl)
  have l4: "config_js_line4 = part_000_line4"
    by (intro ext) (simp add: config_js_line4_def part_000_line4_def)
  have l6: "config_js_line6 = part_000_line6"
    by (intro ext) (simp add: config_js_line6_def part_000_line6_def)
  have b: "config_js_body = part_000_body"
    by (intro ext) (simp add: config_js_body_def part_000_body_def l2 l4 l6)
  have f: "config_js_fallback \<noteq> part_000_fallback"
    by (simp add: config_js_fallback_def part_000_fallback_def)
  show ?thesis
    by (simp add: r l2 b f config_js_load_def part_000_load_def)
qed

section \<open>After the load\<close>

lemma client_step_API_URL: "API_URL (snd (client_step c \<sigma>)) = API_URL \<sigma>"
  by (cases c) (simp_all split: option.split)

lemma run_clients_API_URL: "API_URL (run_clients cs \<sigma>) = API_URL \<sigma>"
  by (induction cs arbitrary: \<sigma>) (simp_all add: client_step_API_URL)

lemma config_js_trace:
  "map API_URL (run_stmts [config_js_line2 fb, config_js_line4, config_js_line6]
     (init_state (Some obj))) =
     [None, Some (resolveApiUrl_config (get_prop obj ''VITE_API_URL'') fb),
      Some (resolveApiUrl_config (get_prop obj ''VITE_API_URL'') fb),
      Some (resolveApiUrl_config (get_prop obj ''VITE_API_URL'') fb)]"
  by (simp add: config_js_line2_ok [of _ obj] config_js_line4_ok config_js_line6_ok
      init_state_def)

lemma part_000_trace:
  "map API_URL (run_stmts [part_000_line2 fb, part_000_line4, part_000_line6]
     (init_state (Some obj))) =
     [None, Some (resolveApiUrl_part_000 (get_prop obj ''VITE_API_URL'') fb),
      Some (resolveApiUrl_part_000 (get_prop obj ''VITE_API_URL'') fb),
      Some (resolveApiUrl_part_000 (get_prop obj ''VITE_API_URL'') fb)]"
  by (simp add: part_000_line2_ok [of _ obj] part_000_line4_ok part_000_line6_ok
      init_state_def)

lemma config_js_trace_last:
  "last (run_stmts [config_js_line2 fb, config_js_line4, config_js_line6] (init_state (Some obj))) =
     \<lparr>import_meta_env = Some obj,
      API_URL = Some (resolveApiUrl_config (get_prop obj ''VITE_API_URL'') fb),
      default_export = Some (resolveApiUrl_config (get_prop obj ''VITE_API_URL'') fb),
      console = [''API URL: '' @ console_arg (resolveApiUrl_config (get_prop obj ''VITE_API_URL'') fb)]\<rparr>"
  by (simp add: config_js_line2_ok [of _ obj] config_js_line4_ok config_js_line6_ok init_state_def)

lemma part_000_trace_last:
  "last (run_stmts [part_000_line2 fb, part_000_line4, part_000_line6] (init_state (Some obj))) =
     \<lparr>import_meta_env = Some obj,
      API_URL = Some (resolveApiUrl_part_000 (get_prop obj ''VITE_API_URL'') fb),
      default_export = Some (resolveApiUrl_part_000 (get_prop obj ''VITE_API_URL'') fb),
      console = [''API URL: '' @ console_arg (resolveApiUrl_part_000 (get_prop obj ''VITE_API_URL'') fb)]\<rparr>"
  by (simp add: part_000_line2_ok [of _ obj] part_000_line4_ok part_000_line6_ok init_state_def)

text \<open>
  C9. The resolved value is created once, when the module loads, and never changes after.
  For either file and every environment object: the load succeeds and binds \<open>API_URL\<close> to
  the value resolved from the override the object holds at that moment; along the states
  the three statements pass through, the binding is empty at the start, holds that value
  after line 2 and still holds it after line 4 and after line 6, so it is written once;
  and after the load, whatever reads, attempted assignments to the exports, writes to the
  environment object and console calls follow, the binding is the one the load made and a
  read returns the value resolved at the load. A later write of \<open>VITE_API_URL\<close> does change
  the environment object, and does not change the binding.
\<close>

theorem API_URL_immutable_after_load:
  "(\<exists>\<sigma>. config_js_load (Some obj) = Inr \<sigma> \<and>
      API_URL \<sigma> =
        Some (resolveApiUrl_config (get_prop obj ''VITE_API_URL'') config_js_fallback) \<and>
      last (run_stmts [config_js_line2 config_js_fallback, config_js_line4, config_js_line6]
        (init_state (Some obj))) = \<sigma> \<and>
      map API_URL
        (run_stmts [config_js_line2 config_js_fallback, config_js_line4, config_js_line6]
          (init_state (Some obj))) = [None, API_URL \<sigma>, API_URL \<sigma>, API_URL \<sigma>] \<and>
      API_URL (run_clients cs \<sigma>) = API_URL \<sigma> \<and>
      fst (client_step ReadAPI_URL (run_clients cs \<sigma>)) =
        Inr (resolveApiUrl_config (get_prop obj ''VITE_API_URL'') config_js_fallback) \<and>
      import_meta_env (run_clients [SetEnv ''VITE_API_URL'' x] \<sigma>) =
        Some (obj(''VITE_API_URL'' \<mapsto> x)) \<and>
      API_URL (run_clients (SetEnv ''VITE_API_URL'' x # cs) \<sigma>) = API_URL \<sigma>) \<and>
   (\<exists>\<sigma>. part_000_load (Some obj) = Inr \<sigma> \<and>
      API_URL \<sigma> =
        Some (resolveApiUrl_part_000 (get_prop obj ''VITE_API_URL'') part_000_fallback) \<and>
      last (run_stmts [part_000_line2 part_000_fallback, part_000_line4, part_000_line6]
        (init_state (Some obj))) = \<sigma> \<and>
      map API_URL
        (run_stmts [part_000_line2 part_000_fallback, part_000_line4, part_000_line6]
          (init_state (Some obj))) = [None, API_URL \<sigma>, API_URL \<sigma>, API_URL \<sigma>] \<and>
      API_URL (run_clients cs \<sigma>) = API_URL \<sigma> \<and>
      fst (client_step ReadAPI_URL (run_clients cs \<sigma>)) =
        Inr (resolveApiUrl_part_000 (get_prop obj ''VITE_API_URL'') part_000_fallback) \<and>
      import_meta_env (run_clients [SetEnv ''VITE_API_URL'' x] \<sigma>) =
        Some (obj(''VITE_API_URL'' \<mapsto> x)) \<and>
      API_URL (run_clients (SetEnv ''VITE_API_URL'' x # cs) \<sigma>) = API_URL \<sigma>)"
proof
  let ?v = "resolveApiUrl_config (get_prop obj ''VITE_API_URL'') config_js_fallback"
  let ?ss = "run_stmts [config_js_line2 config_js_fallback, config_js_line4, config_js_line6]
    (init_state (Some obj))"
  let ?\<sigma> = "last ?ss"
  have ld: "config_js_load (Some obj) = Inr ?\<sigma>"
    unfolding config_js_trace_last by (rule config_js_load_ok)
  have v: "API_URL ?\<sigma> = Some ?v"
    unfolding config_js_trace_last by simp
  have tr: "map API_URL ?ss = [None, API_URL ?\<sigma>, API_URL ?\<sigma>, API_URL ?\<sigma>]"
    by (simp only: v config_js_trace)
  have rd: "fst (client_step ReadAPI_URL (run_clients cs ?\<sigma>)) = Inr ?v"
    unfolding config_js_trace_last by (simp add: run_clients_API_URL read_binding_def)
  have se: "import_meta_env (run_clients [SetEnv ''VITE_API_URL'' x] ?\<sigma>) =
      Some (obj(''VITE_API_URL'' \<mapsto> x))"
    unfolding config_js_trace_last by simp
  from ld v tr rd se
  show "\<exists>\<sigma>. config_js_load (Some obj) = Inr \<sigma> \<and> API_URL \<sigma> = Some ?v \<and> last ?ss = \<sigma> \<and>
      map API_URL ?ss = [None, API_URL \<sigma>, API_URL \<sigma>, API_URL \<sigma>] \<and>
      API_URL (run_clients cs \<sigma>) = API_URL \<sigma> \<and>
      fst (client_step ReadAPI_URL (run_clients cs \<sigma>)) = Inr ?v \<and>
      import_meta_env (run_clients [SetEnv ''VITE_API_URL'' x] \<sigma>) =
        Some (obj(''VITE_API_URL'' \<mapsto> x)) \<and>
      API_URL (run_clients (SetEnv ''VITE_API_URL'' x # cs) \<sigma>) = API_URL \<sigma>"
    by (intro exI [of _ ?\<sigma>] conjI refl run_clients_API_URL)
next
  let ?v = "resolveApiUrl_part_000 (get_prop obj ''VITE_API_URL'') part_000_fallback"
  let ?ss = "run_stmts [part_000_line2 part_000_fallback, part_000_line4, part_000_line6]
    (init_state (Some obj))"
  let ?\<sigma> = "last ?ss"
  have ld: "part_000_load (Some obj) = Inr ?\<sigma>"
    unfolding part_000_trace_last by (rule part_000_load_ok)
  have v: "API_URL ?\<sigma> = Some ?v"
    unfolding part_000_trace_last by simp
  have tr: "map API_URL ?ss = [None, API_URL ?\<sigma>, API_URL ?\<sigma>, API_URL ?\<sigma>]"
    by (simp only: v part_000_trace)
  have rd: "fst (client_step ReadAPI_URL (run_clients cs ?\<sigma>)) = Inr ?v"
    unfolding part_000_trace_last by (simp add: run_clients_API_URL read_binding_def)
  have se: "import_meta_env (run_clients [SetEnv ''VITE_API_URL'' x] ?\<sigma>) =
      Some (obj(''VITE_API_URL'' \<mapsto> x))"
    unfolding part_000_trace_last by simp
  from ld v tr rd se
  show "\<exists>\<sigma>. part_000_load (Some obj) = Inr \<sigma> \<and> API_URL \<sigma> = Some ?v \<and> last ?ss = \<sigma> \<and>
      map API_URL ?ss = [None, API_URL \<sigma>, API_URL \<sigma>, API_URL \<sigma>] \<and>
      API_URL (run_clients cs \<sigma>) = API_URL \<sigma> \<and>
      fst (client_step ReadAPI_URL (run_clients cs \<sigma>)) = Inr ?v \<and>
      import_meta_env (run_clients [SetEnv ''VITE_API_URL'' x] \<sigma>) =
        Some (obj(''VITE_API_URL'' \<mapsto> x)) \<and>
      API_URL (run_clients (SetEnv ''VITE_API_URL'' x # cs) \<sigma>) = API_URL \<sigma>"
    by (intro exI [of _ ?\<sigma>] conjI refl run_clients_API_URL)
qed

text \<open>
  C10. The resolved value is the override itself or the fallback literal, never any other
  string.
\<close>

theorem resolveApiUrl_override_or_fallback:
  "(resolveApiUrl_config ov fb = ov \<or> resolveApiUrl_config ov fb = JString fb) \<and>
   (resolveApiUrl_part_000 ov fb = ov \<or> resolveApiUrl_part_000 ov fb = JString fb)"
  by (simp add: resolve_config_cases resolve_part_000_cases)

end
